theory Spec2Isabelle
  imports Main
begin

section \<open>The recipe object\<close>

text \<open>
  The recipe \<^verbatim>\<open>MayafluxConan\<close> of \<^verbatim>\<open>conanfile.py\<close> is a class whose methods read
  and mutate \<^verbatim>\<open>self\<close>. The model passes the state explicitly: every method takes the
  recipe and returns the updated one.

  \<^verbatim>\<open>settings = "os", "compiler", "build_type", "arch"\<close>: four string-valued settings,
  only read by the methods.
\<close>

record settings =
  os :: string
  compiler :: string
  build_type :: string
  arch :: string

text \<open>
  \<^verbatim>\<open>options = {"shared": [True, False], "fPIC": [True, False], "with_lila": [True, False]}\<close>:
  three Boolean options of the recipe itself. \<^verbatim>\<open>fPIC\<close> is the only one that a method
  deletes (\<^verbatim>\<open>del self.options.fPIC\<close>), so it is an optional field: \<open>None\<close> is the
  deleted option. The options of dependencies, \<^verbatim>\<open>self.options["dep"].opt\<close> (written
  \<^verbatim>\<open>"dep:opt"\<close> in \<^verbatim>\<open>default_options\<close>), are a dictionary keyed by the pair of the
  dependency name and the option name.
\<close>

record options =
  shared :: bool
  fPIC :: "bool option"
  with_lila :: bool
  dep_options :: "string \<times> string \<rightharpoonup> bool"

text \<open>
  \<^verbatim>\<open>self.cpp_info\<close>: the root component with its \<^verbatim>\<open>libs\<close>, \<^verbatim>\<open>bindirs\<close> and
  \<^verbatim>\<open>libdirs\<close>, and the dictionary \<^verbatim>\<open>components\<close> of named sub-components, each with
  its \<^verbatim>\<open>libs\<close> and \<^verbatim>\<open>requires\<close>.
\<close>

record component =
  libs :: "string list"
  requires :: "string list"

record cpp_info = component +
  bindirs :: "string list"
  libdirs :: "string list"
  components :: "string \<rightharpoonup> component"

text \<open>
  The recipe: its settings, its options, the references declared so far by
  \<^verbatim>\<open>self.requires(...)\<close> in the order of the calls, and \<^verbatim>\<open>self.cpp_info\<close>.
\<close>

record conanfile =
  settings :: settings
  options :: options
  reqs :: "string list"
  cpp_info :: cpp_info

section \<open>Defaults\<close>

text \<open>
  \<^verbatim>\<open>
  default_options = {
      "shared": True,
      "fPIC": True,
      "with_lila": True,
      "ffmpeg:shared": True,
      "llvm:shared": True,
      "rtaudio:shared": True,
      "glfw:shared": True,
      "vulkan-loader:shared": True,
  }
  \<close>
\<close>

definition default_options :: options where
  "default_options =
     \<lparr> shared = True,
       fPIC = Some True,
       with_lila = True,
       dep_options =
         [(''ffmpeg'', ''shared'') \<mapsto> True,
          (''llvm'', ''shared'') \<mapsto> True,
          (''rtaudio'', ''shared'') \<mapsto> True,
          (''glfw'', ''shared'') \<mapsto> True,
          (''vulkan-loader'', ''shared'') \<mapsto> True] \<rparr>"

text \<open>A component that no assignment has touched yet: no library, no requirement.\<close>

definition new_component :: component where
  "new_component = \<lparr> libs = [], requires = [] \<rparr>"

definition new_cpp_info :: cpp_info where
  "new_cpp_info =
     \<lparr> libs = [], requires = [], bindirs = [], libdirs = [], components = Map.empty \<rparr>"

text \<open>
  The recipe as the class declares it for a given platform: the default options, nothing
  required yet, nothing published yet.
\<close>

definition new_conanfile :: "settings \<Rightarrow> conanfile" where
  "new_conanfile st =
     \<lparr> settings = st, options = default_options, reqs = [], cpp_info = new_cpp_info \<rparr>"

section \<open>Assignments to the recipe\<close>

text \<open>\<^verbatim>\<open>del self.options.fPIC\<close>\<close>

definition del_fPIC :: "conanfile \<Rightarrow> conanfile" where
  "del_fPIC self = self\<lparr>options := (options self)\<lparr>fPIC := None\<rparr>\<rparr>"

text \<open>\<^verbatim>\<open>self.options[dep].opt = v\<close>: the entry is created when it is not there.\<close>

definition set_dep_option :: "string \<Rightarrow> string \<Rightarrow> bool \<Rightarrow> conanfile \<Rightarrow> conanfile" where
  "set_dep_option dep opt v self =
     self\<lparr>options := (options self)\<lparr>dep_options := (dep_options (options self))((dep, opt) \<mapsto> v)\<rparr>\<rparr>"

text \<open>\<^verbatim>\<open>self.requires(ref)\<close>: one more declaration, after those made before.\<close>

definition self_requires :: "string \<Rightarrow> conanfile \<Rightarrow> conanfile" where
  "self_requires ref self = self\<lparr>reqs := reqs self @ [ref]\<rparr>"

text \<open>
  \<^verbatim>\<open>self.cpp_info.components[name]\<close>: the dictionary hands out a fresh component for a
  name it does not hold yet.
\<close>

definition get_component :: "string \<Rightarrow> conanfile \<Rightarrow> component" where
  "get_component name self =
     (case components (cpp_info self) name of None \<Rightarrow> new_component | Some c \<Rightarrow> c)"

definition put_component :: "string \<Rightarrow> component \<Rightarrow> conanfile \<Rightarrow> conanfile" where
  "put_component name c self =
     self\<lparr>cpp_info := (cpp_info self)\<lparr>components := (components (cpp_info self))(name \<mapsto> c)\<rparr>\<rparr>"

text \<open>\<^verbatim>\<open>self.cpp_info.components[name].libs = ls\<close>\<close>

definition set_component_libs :: "string \<Rightarrow> string list \<Rightarrow> conanfile \<Rightarrow> conanfile" where
  "set_component_libs name ls self =
     put_component name ((get_component name self)\<lparr>libs := ls\<rparr>) self"

text \<open>\<^verbatim>\<open>self.cpp_info.components[name].requires = rs\<close>\<close>

definition set_component_requires :: "string \<Rightarrow> string list \<Rightarrow> conanfile \<Rightarrow> conanfile" where
  "set_component_requires name rs self =
     put_component name ((get_component name self)\<lparr>requires := rs\<rparr>) self"

section \<open>The methods of the recipe\<close>

text \<open>
  \<^verbatim>\<open>
  def config_options(self):
      if self.settings.os == "Windows":
          del self.options.fPIC
      if self.settings.os == "Windows":
          self.options["ffmpeg"].shared = False
          self.options["rtaudio"].shared = False
  \<close>
\<close>

definition config_options :: "conanfile \<Rightarrow> conanfile" where
  "config_options self =
     (let self1 = (if os (settings self) = ''Windows'' then del_fPIC self else self)
      in if os (settings self1) = ''Windows''
         then set_dep_option ''rtaudio'' ''shared'' False
                (set_dep_option ''ffmpeg'' ''shared'' False self1)
         else self1)"

text \<open>
  \<^verbatim>\<open>
  def configure(self):
      if not self.options.with_lila:
          self.options["llvm"].shared = False
  \<close>
\<close>

definition configure :: "conanfile \<Rightarrow> conanfile" where
  "configure self =
     (if \<not> with_lila (options self)
      then set_dep_option ''llvm'' ''shared'' False self
      else self)"

text \<open>
  \<^verbatim>\<open>
  def requirements(self):
      self.requires("rtaudio/5.2.0")
      self.requires("eigen/3.4.0")
      self.requires("magic_enum/0.9.3")
      self.requires("glfw/3.3.8")
      self.requires("ffmpeg/5.1.2")
      self.requires("vulkan-loader/1.3.250.0")
      self.requires("vulkan-headers/1.3.250.0")
      if self.settings.os == "Windows":
          self.requires("ms-gsl/4.0.0")
      else:
          self.requires("tbb/2020.3")
      self.requires("fmt/10.0.0")
      self.requires("gtest/1.14.0")
      if self.options.with_lila:
          self.requires("llvm/17.0.6")
  \<close>
  The statements run one after the other on the same recipe.
\<close>

definition requirements :: "conanfile \<Rightarrow> conanfile" where
  "requirements self =
     (let self1 = self_requires ''rtaudio/5.2.0'' self;
          self2 = self_requires ''eigen/3.4.0'' self1;
          self3 = self_requires ''magic_enum/0.9.3'' self2;
          self4 = self_requires ''glfw/3.3.8'' self3;
          self5 = self_requires ''ffmpeg/5.1.2'' self4;
          self6 = self_requires ''vulkan-loader/1.3.250.0'' self5;
          self7 = self_requires ''vulkan-headers/1.3.250.0'' self6;
          self8 = (if os (settings self7) = ''Windows''
                   then self_requires ''ms-gsl/4.0.0'' self7
                   else self_requires ''tbb/2020.3'' self7);
          self9 = self_requires ''fmt/10.0.0'' self8;
          self10 = self_requires ''gtest/1.14.0'' self9
      in if with_lila (options self10)
         then self_requires ''llvm/17.0.6'' self10
         else self10)"

text \<open>
  \<^verbatim>\<open>
  def generate(self):
      deps = CMakeDeps(self)
      deps.generate()
      tc = CMakeToolchain(self)
      tc.variables["BUILD_LILA"] = self.options.with_lila
      tc.variables["MAYAFLUX_USE_CONAN"] = True
      if self.settings.os == "Windows":
          tc.variables["USE_PPL_BACKEND"] = True
      else:
          tc.variables["USE_TBB_BACKEND"] = True
      if self.settings.os == "Macos":
          tc.variables["MAYAFLUX_USE_FMT"] = True
      tc.generate()
  \<close>
  The method leaves the recipe as it is and fills the dictionary \<^verbatim>\<open>tc.variables\<close> of a
  toolchain it has just made, which holds no variable before the first assignment. The
  model returns that dictionary as \<^verbatim>\<open>tc.generate()\<close> receives it; writing the files is
  the work of the two generators.
\<close>

definition generate :: "conanfile \<Rightarrow> (string \<rightharpoonup> bool)" where
  "generate self =
     (let tc0 = (Map.empty :: string \<rightharpoonup> bool);
          tc1 = tc0(''BUILD_LILA'' \<mapsto> with_lila (options self));
          tc2 = tc1(''MAYAFLUX_USE_CONAN'' \<mapsto> True);
          tc3 = (if os (settings self) = ''Windows''
                 then tc2(''USE_PPL_BACKEND'' \<mapsto> True)
                 else tc2(''USE_TBB_BACKEND'' \<mapsto> True))
      in if os (settings self) = ''Macos''
         then tc3(''MAYAFLUX_USE_FMT'' \<mapsto> True)
         else tc3)"

text \<open>
  \<^verbatim>\<open>
  def package_info(self):
      self.cpp_info.libs = ["MayaFluxLib"]
      if self.options.with_lila:
          self.cpp_info.components["lila"].libs = ["Lila"]
          self.cpp_info.components["lila"].requires = [
              "llvm::llvm", "clang::clang", "mayaflux::mayaflux"]
      if self.settings.os == "Windows":
          self.cpp_info.bindirs = ["bin"]
      else:
          self.cpp_info.libdirs = ["lib"]
  \<close>
\<close>

definition package_info :: "conanfile \<Rightarrow> conanfile" where
  "package_info self =
     (let self1 = self\<lparr>cpp_info := (cpp_info self)\<lparr>libs := [''MayaFluxLib'']\<rparr>\<rparr>;
          self2 = (if with_lila (options self1)
                   then set_component_requires ''lila''
                          [''llvm::llvm'', ''clang::clang'', ''mayaflux::mayaflux'']
                          (set_component_libs ''lila'' [''Lila''] self1)
                   else self1)
      in if os (settings self2) = ''Windows''
         then self2\<lparr>cpp_info := (cpp_info self2)\<lparr>bindirs := [''bin'']\<rparr>\<rparr>
         else self2\<lparr>cpp_info := (cpp_info self2)\<lparr>libdirs := [''lib'']\<rparr>\<rparr>)"

section \<open>Reading a reference\<close>

text \<open>
  A reference handed to \<^verbatim>\<open>self.requires\<close> is \<^verbatim>\<open>name/version\<close>: the name is what
  stands before the first slash, the version what follows it.
\<close>

definition ref_name :: "string \<Rightarrow> string" where
  "ref_name r = takeWhile (\<lambda>c. c \<noteq> CHR ''/'') r"

definition ref_version :: "string \<Rightarrow> string" where
  "ref_version r = drop 1 (dropWhile (\<lambda>c. c \<noteq> CHR ''/'') r)"

definition dep_names :: "conanfile \<Rightarrow> string list" where
  "dep_names self = map ref_name (reqs self)"

text \<open>
  The conflict that the specification makes a fatal configuration error: two declarations
  of one dependency name whose version constraints differ.
\<close>

definition conflicting_versions :: "string list \<Rightarrow> bool" where
  "conflicting_versions rs =
     list_ex (\<lambda>r1. list_ex (\<lambda>r2. ref_name r1 = ref_name r2 \<and> ref_version r1 \<noteq> ref_version r2) rs) rs"

text \<open>
  The order of the rule table as the specification words it: the nine unconditional
  dependencies (audio I/O, linear algebra, enum reflection, windowing, media codec,
  graphics-API loader, graphics-API headers, string formatting, test framework), then the
  parallel-computing backend of the platform, then the JIT library under its option.
\<close>

definition spec_rule_order :: "conanfile \<Rightarrow> string list" where
  "spec_rule_order self =
     [''rtaudio/5.2.0'', ''eigen/3.4.0'', ''magic_enum/0.9.3'', ''glfw/3.3.8'',
      ''ffmpeg/5.1.2'', ''vulkan-loader/1.3.250.0'', ''vulkan-headers/1.3.250.0'',
      ''fmt/10.0.0'', ''gtest/1.14.0'']
     @ (if os (settings self) = ''Windows'' then [''ms-gsl/4.0.0''] else [''tbb/2020.3''])
     @ (if with_lila (options self) then [''llvm/17.0.6''] else [])"

text \<open>Three platforms and a recipe with the optional subsystem switched off.\<close>

definition linux :: settings where
  "linux = \<lparr> os = ''Linux'', compiler = ''gcc'', build_type = ''Release'', arch = ''x86_64'' \<rparr>"

definition windows :: settings where
  "windows = \<lparr> os = ''Windows'', compiler = ''msvc'', build_type = ''Release'', arch = ''x86_64'' \<rparr>"

definition macos :: settings where
  "macos = \<lparr> os = ''Macos'', compiler = ''apple-clang'', build_type = ''Release'', arch = ''armv8'' \<rparr>"

definition without_lila :: "conanfile \<Rightarrow> conanfile" where
  "without_lila self = self\<lparr>options := (options self)\<lparr>with_lila := False\<rparr>\<rparr>"

section \<open>What each method changes\<close>

lemma self_requires_simps:
  "reqs (self_requires r self) = reqs self @ [r]"
  "settings (self_requires r self) = settings self"
  "options (self_requires r self) = options self"
  "cpp_info (self_requires r self) = cpp_info self"
  by (simp_all add: self_requires_def)

lemma set_dep_option_simps:
  "settings (set_dep_option d k v self) = settings self"
  "reqs (set_dep_option d k v self) = reqs self"
  "cpp_info (set_dep_option d k v self) = cpp_info self"
  "shared (options (set_dep_option d k v self)) = shared (options self)"
  "fPIC (options (set_dep_option d k v self)) = fPIC (options self)"
  "with_lila (options (set_dep_option d k v self)) = with_lila (options self)"
  "dep_options (options (set_dep_option d k v self)) = (dep_options (options self))((d, k) \<mapsto> v)"
  by (simp_all add: set_dep_option_def)

lemma del_fPIC_simps:
  "settings (del_fPIC self) = settings self"
  "reqs (del_fPIC self) = reqs self"
  "cpp_info (del_fPIC self) = cpp_info self"
  "shared (options (del_fPIC self)) = shared (options self)"
  "fPIC (options (del_fPIC self)) = None"
  "with_lila (options (del_fPIC self)) = with_lila (options self)"
  "dep_options (options (del_fPIC self)) = dep_options (options self)"
  by (simp_all add: del_fPIC_def)

lemma reqs_requirements:
  "reqs (requirements self) =
     reqs self
     @ [''rtaudio/5.2.0'', ''eigen/3.4.0'', ''magic_enum/0.9.3'', ''glfw/3.3.8'',
        ''ffmpeg/5.1.2'', ''vulkan-loader/1.3.250.0'', ''vulkan-headers/1.3.250.0'']
     @ [if os (settings self) = ''Windows'' then ''ms-gsl/4.0.0'' else ''tbb/2020.3'']
     @ [''fmt/10.0.0'', ''gtest/1.14.0'']
     @ (if with_lila (options self) then [''llvm/17.0.6''] else [])"
  by (simp add: requirements_def Let_def self_requires_simps)

lemma frame_requirements:
  "settings (requirements self) = settings self"
  "options (requirements self) = options self"
  "cpp_info (requirements self) = cpp_info self"
  by (simp_all add: requirements_def Let_def self_requires_simps)

lemma names_requirements:
  "reqs self = [] \<Longrightarrow> dep_names (requirements self) =
     [''rtaudio'', ''eigen'', ''magic_enum'', ''glfw'', ''ffmpeg'', ''vulkan-loader'',
      ''vulkan-headers'', if os (settings self) = ''Windows'' then ''ms-gsl'' else ''tbb'',
      ''fmt'', ''gtest'']
     @ (if with_lila (options self) then [''llvm''] else [])"
  by (simp add: dep_names_def reqs_requirements ref_name_def)

lemma requirements_well_formed:
  "reqs self = [] \<Longrightarrow>
     list_all (\<lambda>r. r = ref_name r @ ''/'' @ ref_version r \<and> ref_name r \<noteq> [] \<and>
                   ref_version r \<noteq> []) (reqs (requirements self))"
  by (simp add: reqs_requirements ref_name_def ref_version_def)

text \<open>
  Declarations whose names differ pairwise cannot conflict: two entries of one name are
  the same entry.
\<close>

lemma distinct_names_no_conflict:
  assumes "distinct (map ref_name rs)"
  shows "\<not> conflicting_versions rs"
proof
  assume "conflicting_versions rs"
  then obtain r1 r2 where r: "r1 \<in> set rs" "r2 \<in> set rs"
    and n: "ref_name r1 = ref_name r2" and v: "ref_version r1 \<noteq> ref_version r2"
    by (auto simp add: conflicting_versions_def list_ex_iff)
  from assms have "inj_on ref_name (set rs)"
    by (simp add: distinct_map)
  with r n have "r1 = r2"
    by (simp add: inj_on_def)
  with v show False by simp
qed

text \<open>The predicate does see a conflict where there is one.\<close>

lemma conflicting_versions_example:
  "conflicting_versions [''fmt/10.0.0'', ''gtest/1.14.0'', ''fmt/9.1.0'']"
  by (simp add: conflicting_versions_def ref_name_def ref_version_def)

section \<open>The order of the declarations\<close>

text \<open>
  C1, as the specification states it: \<^verbatim>\<open>requirements\<close> emits the nine unconditional
  dependencies first, then the parallel-computing backend, then the JIT library. On a
  Linux platform with the default options the recipe does not: it declares \<^verbatim>\<open>tbb\<close>
  before \<^verbatim>\<open>fmt\<close> and \<^verbatim>\<open>gtest\<close>.
\<close>

theorem requirements_order_counterexample:
  "reqs (requirements (new_conanfile linux)) \<noteq> spec_rule_order (new_conanfile linux)"
  by (simp add: reqs_requirements spec_rule_order_def new_conanfile_def linux_def
      default_options_def)

text \<open>
  C1, amended: for every platform and option assignment \<^verbatim>\<open>requirements\<close> appends, in
  this order, the seven dependencies \<^verbatim>\<open>rtaudio\<close>, \<^verbatim>\<open>eigen\<close>, \<^verbatim>\<open>magic_enum\<close>,
  \<^verbatim>\<open>glfw\<close>, \<^verbatim>\<open>ffmpeg\<close>, \<^verbatim>\<open>vulkan-loader\<close>, \<^verbatim>\<open>vulkan-headers\<close>, then the
  parallel-computing backend of the platform (\<^verbatim>\<open>ms-gsl\<close> on Windows, \<^verbatim>\<open>tbb\<close>
  elsewhere), then \<^verbatim>\<open>fmt\<close> and \<^verbatim>\<open>gtest\<close>, then \<^verbatim>\<open>llvm\<close> when \<^verbatim>\<open>with_lila\<close> is
  set; the list is the concatenation of the rule outputs in the order of the source.
\<close>

theorem requirements_order:
  "reqs (requirements self) =
     reqs self
     @ [''rtaudio/5.2.0'', ''eigen/3.4.0'', ''magic_enum/0.9.3'', ''glfw/3.3.8'',
        ''ffmpeg/5.1.2'', ''vulkan-loader/1.3.250.0'', ''vulkan-headers/1.3.250.0'']
     @ (if os (settings self) = ''Windows'' then [''ms-gsl/4.0.0''] else [''tbb/2020.3''])
     @ [''fmt/10.0.0'', ''gtest/1.14.0'']
     @ (if with_lila (options self) then [''llvm/17.0.6''] else [])"
  by (simp add: reqs_requirements)

theorem requirements_order_witness:
  "reqs (requirements (new_conanfile windows)) =
     [''rtaudio/5.2.0'', ''eigen/3.4.0'', ''magic_enum/0.9.3'', ''glfw/3.3.8'',
      ''ffmpeg/5.1.2'', ''vulkan-loader/1.3.250.0'', ''vulkan-headers/1.3.250.0'',
      ''ms-gsl/4.0.0'', ''fmt/10.0.0'', ''gtest/1.14.0'', ''llvm/17.0.6'']"
  using requirements_order [of "new_conanfile windows"]
  by (simp add: new_conanfile_def windows_def default_options_def)

section \<open>The override of the JIT library\<close>

text \<open>
  C2, as the specification states it: with \<^verbatim>\<open>with_lila\<close> false, the overrides hold no
  entry for \<^verbatim>\<open>llvm\<close> after \<^verbatim>\<open>configure\<close>, so that no override names a dependency that
  is not required. On a Linux recipe with \<^verbatim>\<open>with_lila\<close> switched off the entry
  \<^verbatim>\<open>llvm:shared\<close> is there after \<^verbatim>\<open>configure\<close>, while \<^verbatim>\<open>requirements\<close> does not
  declare \<^verbatim>\<open>llvm\<close>.
\<close>

theorem configure_llvm_counterexample:
  "\<not> with_lila (options (without_lila (new_conanfile linux))) \<and>
   dep_options (options (configure (without_lila (new_conanfile linux)))) (''llvm'', ''shared'') \<noteq> None \<and>
   ''llvm'' \<notin> set (dep_names (requirements (configure (without_lila (new_conanfile linux)))))"
  by (simp add: without_lila_def configure_def set_dep_option_simps new_conanfile_def
      dep_names_def reqs_requirements ref_name_def linux_def)

text \<open>
  C2, amended: for every option state with \<^verbatim>\<open>with_lila\<close> false, after \<^verbatim>\<open>configure\<close>
  the override \<^verbatim>\<open>llvm:shared\<close> is present with the value \<^verbatim>\<open>False\<close>: the entry is
  assigned, not removed.
\<close>

theorem configure_keeps_llvm_override:
  "\<not> with_lila (options self) \<Longrightarrow>
     dep_options (options (configure self)) (''llvm'', ''shared'') = Some False"
  by (simp add: configure_def set_dep_option_simps)

theorem configure_keeps_llvm_override_witness:
  "\<not> with_lila (options (without_lila (new_conanfile linux))) \<and>
   dep_options (options (configure (without_lila (new_conanfile linux)))) (''llvm'', ''shared'') = Some False"
  using configure_keeps_llvm_override [of "without_lila (new_conanfile linux)"]
  by (simp add: without_lila_def)

section \<open>The toolchain variables\<close>

text \<open>
  C3: for every platform \<^verbatim>\<open>generate\<close> sets exactly one parallel-backend variable to
  true: \<^verbatim>\<open>USE_PPL_BACKEND\<close> on Windows, where \<^verbatim>\<open>USE_TBB_BACKEND\<close> is not set, and
  \<^verbatim>\<open>USE_TBB_BACKEND\<close> on every other platform, where \<^verbatim>\<open>USE_PPL_BACKEND\<close> is not set;
  never both, never neither.
\<close>

theorem generate_parallel_backend:
  "(os (settings self) = ''Windows'' \<longrightarrow>
      generate self ''USE_PPL_BACKEND'' = Some True \<and> generate self ''USE_TBB_BACKEND'' = None) \<and>
   (os (settings self) \<noteq> ''Windows'' \<longrightarrow>
      generate self ''USE_TBB_BACKEND'' = Some True \<and> generate self ''USE_PPL_BACKEND'' = None) \<and>
   ((generate self ''USE_PPL_BACKEND'' = Some True) \<noteq> (generate self ''USE_TBB_BACKEND'' = Some True))"
  by (simp add: generate_def Let_def)

theorem generate_parallel_backend_witness:
  "generate (new_conanfile windows) ''USE_PPL_BACKEND'' = Some True \<and>
   generate (new_conanfile windows) ''USE_TBB_BACKEND'' = None \<and>
   generate (new_conanfile linux) ''USE_TBB_BACKEND'' = Some True \<and>
   generate (new_conanfile linux) ''USE_PPL_BACKEND'' = None \<and>
   generate (new_conanfile macos) ''USE_TBB_BACKEND'' = Some True \<and>
   generate (new_conanfile macos) ''USE_PPL_BACKEND'' = None"
  using generate_parallel_backend [of "new_conanfile windows"]
    generate_parallel_backend [of "new_conanfile linux"]
    generate_parallel_backend [of "new_conanfile macos"]
  by (simp add: new_conanfile_def windows_def linux_def macos_def)

text \<open>
  C8: \<^verbatim>\<open>MAYAFLUX_USE_FMT\<close> is in the generated variables, with the value true, exactly
  when the platform is \<^verbatim>\<open>Macos\<close>; on every other platform the variable is absent.
\<close>

theorem generate_use_fmt:
  "generate self ''MAYAFLUX_USE_FMT'' = (if os (settings self) = ''Macos'' then Some True else None)"
  by (simp add: generate_def Let_def)

theorem generate_use_fmt_witness:
  "generate (new_conanfile macos) ''MAYAFLUX_USE_FMT'' = Some True \<and>
   generate (new_conanfile linux) ''MAYAFLUX_USE_FMT'' = None \<and>
   generate (new_conanfile windows) ''MAYAFLUX_USE_FMT'' = None"
  using generate_use_fmt [of "new_conanfile macos"] generate_use_fmt [of "new_conanfile linux"]
    generate_use_fmt [of "new_conanfile windows"]
  by (simp add: new_conanfile_def macos_def linux_def windows_def)

section \<open>The options after \<^verbatim>\<open>config_options\<close>\<close>

text \<open>
  C4: after \<^verbatim>\<open>config_options\<close> the option \<^verbatim>\<open>fPIC\<close> is removed on Windows and left as
  it was on every other platform; started from the declared defaults, it is present if
  and only if the platform is not Windows.
\<close>

theorem config_options_fPIC:
  "fPIC (options (config_options self)) =
     (if os (settings self) = ''Windows'' then None else fPIC (options self)) \<and>
   (fPIC (options (config_options (new_conanfile st))) \<noteq> None \<longleftrightarrow> os st \<noteq> ''Windows'')"
  by (auto simp add: config_options_def Let_def set_dep_option_simps del_fPIC_simps
      new_conanfile_def default_options_def)

theorem config_options_fPIC_witness:
  "fPIC (options (config_options (new_conanfile windows))) = None \<and>
   fPIC (options (config_options (new_conanfile linux))) = Some True"
  using config_options_fPIC [of "new_conanfile windows" windows]
    config_options_fPIC [of "new_conanfile linux" linux]
  by (simp add: new_conanfile_def windows_def linux_def default_options_def)

text \<open>
  C6: on Windows with the default options \<^verbatim>\<open>config_options\<close> sets the overrides
  \<^verbatim>\<open>ffmpeg:shared\<close> and \<^verbatim>\<open>rtaudio:shared\<close> to \<^verbatim>\<open>False\<close>; every other override keeps
  its default (\<^verbatim>\<open>True\<close> for \<^verbatim>\<open>llvm\<close>, \<^verbatim>\<open>glfw\<close> and \<^verbatim>\<open>vulkan-loader\<close>), and so does
  the recipe's own \<^verbatim>\<open>shared\<close>.
\<close>

theorem config_options_windows_static:
  assumes "os st = ''Windows''"
  shows "dep_options (options (config_options (new_conanfile st))) (''ffmpeg'', ''shared'') = Some False \<and>
         dep_options (options (config_options (new_conanfile st))) (''rtaudio'', ''shared'') = Some False \<and>
         dep_options (options (config_options (new_conanfile st))) (''llvm'', ''shared'') = Some True \<and>
         dep_options (options (config_options (new_conanfile st))) (''glfw'', ''shared'') = Some True \<and>
         dep_options (options (config_options (new_conanfile st))) (''vulkan-loader'', ''shared'') = Some True \<and>
         (\<forall>k. k \<noteq> (''ffmpeg'', ''shared'') \<and> k \<noteq> (''rtaudio'', ''shared'') \<longrightarrow>
              dep_options (options (config_options (new_conanfile st))) k = dep_options default_options k) \<and>
         shared (options (config_options (new_conanfile st))) = True"
  using assms
  by (simp add: config_options_def Let_def set_dep_option_simps del_fPIC_simps
      new_conanfile_def default_options_def)

theorem config_options_windows_static_witness:
  "os windows = ''Windows'' \<and>
   dep_options (options (config_options (new_conanfile windows))) (''ffmpeg'', ''shared'') = Some False \<and>
   dep_options (options (config_options (new_conanfile windows))) (''rtaudio'', ''shared'') = Some False \<and>
   dep_options (options (config_options (new_conanfile windows))) (''llvm'', ''shared'') = Some True \<and>
   dep_options (options (config_options (new_conanfile windows))) (''glfw'', ''shared'') = Some True \<and>
   dep_options (options (config_options (new_conanfile windows))) (''vulkan-loader'', ''shared'') = Some True \<and>
   shared (options (config_options (new_conanfile windows))) = True"
proof -
  have a: "os windows = ''Windows''" by (simp add: windows_def)
  show ?thesis using config_options_windows_static [OF a] a by simp
qed

section \<open>The optional subsystem\<close>

text \<open>
  C5: on every platform, a recipe with \<^verbatim>\<open>with_lila\<close> false that has declared nothing
  yet ends \<^verbatim>\<open>requirements\<close> with neither \<^verbatim>\<open>llvm\<close> nor \<^verbatim>\<open>clang\<close> among the names of
  its dependencies; \<^verbatim>\<open>llvm/17.0.6\<close> is declared exactly when \<^verbatim>\<open>with_lila\<close> is true.
\<close>

theorem requirements_without_lila:
  assumes "reqs self = []"
  shows "(\<not> with_lila (options self) \<longrightarrow>
            ''llvm'' \<notin> set (dep_names (requirements self)) \<and>
            ''clang'' \<notin> set (dep_names (requirements self))) \<and>
         (''llvm'' \<in> set (dep_names (requirements self)) \<longleftrightarrow> with_lila (options self)) \<and>
         (''llvm/17.0.6'' \<in> set (reqs (requirements self)) \<longleftrightarrow> with_lila (options self))"
  using assms by (simp add: names_requirements reqs_requirements)

theorem requirements_without_lila_witness:
  "reqs (without_lila (new_conanfile windows)) = [] \<and>
   \<not> with_lila (options (without_lila (new_conanfile windows))) \<and>
   ''llvm'' \<notin> set (dep_names (requirements (without_lila (new_conanfile windows)))) \<and>
   ''clang'' \<notin> set (dep_names (requirements (without_lila (new_conanfile windows)))) \<and>
   ''llvm/17.0.6'' \<notin> set (reqs (requirements (without_lila (new_conanfile windows)))) \<and>
   ''llvm'' \<in> set (dep_names (requirements (new_conanfile windows)))"
proof -
  have a: "reqs (without_lila (new_conanfile windows)) = []"
    by (simp add: without_lila_def new_conanfile_def)
  have b: "reqs (new_conanfile windows) = []"
    by (simp add: new_conanfile_def)
  have c: "\<not> with_lila (options (without_lila (new_conanfile windows)))"
    by (simp add: without_lila_def)
  have d: "with_lila (options (new_conanfile windows))"
    by (simp add: new_conanfile_def default_options_def)
  show ?thesis
    using requirements_without_lila [OF a] requirements_without_lila [OF b] a c d by simp
qed

text \<open>
  C7: for every recipe with \<^verbatim>\<open>with_lila\<close> true, \<^verbatim>\<open>package_info\<close> publishes the
  component \<^verbatim>\<open>lila\<close> with the library \<^verbatim>\<open>Lila\<close>, whose required targets are exactly
  \<^verbatim>\<open>llvm::llvm\<close>, \<^verbatim>\<open>clang::clang\<close> and \<^verbatim>\<open>mayaflux::mayaflux\<close>, beside the primary
  library \<^verbatim>\<open>MayaFluxLib\<close>.
\<close>

theorem package_info_lila:
  assumes "with_lila (options self)"
  shows "components (cpp_info (package_info self)) ''lila'' =
           Some \<lparr>libs = [''Lila''],
                 requires = [''llvm::llvm'', ''clang::clang'', ''mayaflux::mayaflux'']\<rparr> \<and>
         libs (cpp_info (package_info self)) = [''MayaFluxLib'']"
  using assms
  by (simp add: package_info_def Let_def set_component_requires_def set_component_libs_def
      put_component_def get_component_def)

theorem package_info_lila_witness:
  "with_lila (options (new_conanfile macos)) \<and>
   components (cpp_info (package_info (new_conanfile macos))) ''lila'' =
           Some \<lparr>libs = [''Lila''],
                 requires = [''llvm::llvm'', ''clang::clang'', ''mayaflux::mayaflux'']\<rparr>"
proof -
  have a: "with_lila (options (new_conanfile macos))"
    by (simp add: new_conanfile_def default_options_def)
  show ?thesis using package_info_lila [OF a] a by simp
qed

section \<open>What \<^verbatim>\<open>configure\<close> leaves alone\<close>

text \<open>
  C9: \<^verbatim>\<open>configure\<close> changes at most the override \<^verbatim>\<open>llvm:shared\<close>: the settings, the
  options \<^verbatim>\<open>shared\<close>, \<^verbatim>\<open>with_lila\<close> and \<^verbatim>\<open>fPIC\<close> (present or removed), every other
  override (those of \<^verbatim>\<open>ffmpeg\<close>, \<^verbatim>\<open>rtaudio\<close>, \<^verbatim>\<open>glfw\<close> and \<^verbatim>\<open>vulkan-loader\<close> among
  them), the declared requirements and the package information are as before; with
  \<^verbatim>\<open>with_lila\<close> true the recipe is returned as it was.
\<close>

theorem configure_frame:
  "settings (configure self) = settings self \<and>
   reqs (configure self) = reqs self \<and>
   cpp_info (configure self) = cpp_info self \<and>
   shared (options (configure self)) = shared (options self) \<and>
   with_lila (options (configure self)) = with_lila (options self) \<and>
   fPIC (options (configure self)) = fPIC (options self) \<and>
   (\<forall>k. k \<noteq> (''llvm'', ''shared'') \<longrightarrow>
        dep_options (options (configure self)) k = dep_options (options self) k) \<and>
   (with_lila (options self) \<longrightarrow> configure self = self)"
  by (simp add: configure_def set_dep_option_simps)

theorem configure_frame_witness:
  "dep_options (options (configure (without_lila (new_conanfile linux)))) (''ffmpeg'', ''shared'') = Some True \<and>
   dep_options (options (configure (without_lila (new_conanfile linux)))) (''rtaudio'', ''shared'') = Some True \<and>
   dep_options (options (configure (without_lila (new_conanfile linux)))) (''glfw'', ''shared'') = Some True \<and>
   dep_options (options (configure (without_lila (new_conanfile linux)))) (''vulkan-loader'', ''shared'') = Some True \<and>
   fPIC (options (configure (without_lila (new_conanfile linux)))) = Some True \<and>
   shared (options (configure (without_lila (new_conanfile linux)))) \<and>
   settings (configure (without_lila (new_conanfile linux))) = linux \<and>
   configure (new_conanfile linux) = new_conanfile linux"
  using configure_frame [of "without_lila (new_conanfile linux)"]
    configure_frame [of "new_conanfile linux"]
  by (simp add: without_lila_def new_conanfile_def default_options_def)

section \<open>No dependency is declared twice\<close>

text \<open>
  C10: for every platform and option assignment, a recipe that has declared nothing yet
  ends \<^verbatim>\<open>requirements\<close> with pairwise different dependency names, each reference being
  one name and one non-empty version string around a slash; so no two declarations of one
  name with different versions exist, and the conflict error cannot arise.
\<close>

theorem requirements_no_conflict:
  assumes "reqs self = []"
  shows "distinct (dep_names (requirements self)) \<and>
         \<not> conflicting_versions (reqs (requirements self)) \<and>
         list_all (\<lambda>r. r = ref_name r @ ''/'' @ ref_version r \<and> ref_name r \<noteq> [] \<and>
                       ref_version r \<noteq> []) (reqs (requirements self))"
proof -
  have d: "distinct (dep_names (requirements self))"
    using assms by (simp add: names_requirements)
  then have "\<not> conflicting_versions (reqs (requirements self))"
    unfolding dep_names_def by (rule distinct_names_no_conflict)
  with d requirements_well_formed [OF assms] show ?thesis by simp
qed

theorem requirements_no_conflict_witness:
  "reqs (new_conanfile linux) = [] \<and>
   distinct (dep_names (requirements (new_conanfile linux))) \<and>
   \<not> conflicting_versions (reqs (requirements (new_conanfile linux))) \<and>
   dep_names (requirements (new_conanfile linux)) =
     [''rtaudio'', ''eigen'', ''magic_enum'', ''glfw'', ''ffmpeg'', ''vulkan-loader'',
      ''vulkan-headers'', ''tbb'', ''fmt'', ''gtest'', ''llvm'']"
proof -
  have a: "reqs (new_conanfile linux) = []"
    by (simp add: new_conanfile_def)
  have b: "dep_names (requirements (new_conanfile linux)) =
     [''rtaudio'', ''eigen'', ''magic_enum'', ''glfw'', ''ffmpeg'', ''vulkan-loader'',
      ''vulkan-headers'', ''tbb'', ''fmt'', ''gtest'', ''llvm'']"
    by (simp add: dep_names_def reqs_requirements ref_name_def new_conanfile_def linux_def
        default_options_def)
  show ?thesis using requirements_no_conflict [OF a] a b by simp
qed

end
